theory Spec2Isabelle
  imports Complex_Main "HOL-Library.AList"
begin

section \<open>Values, dictionaries, paths and errors\<close>

text \<open>
  The operations of \<^verbatim>\<open>tagifai/main.py\<close> pass Python dictionaries around: the
  parameters (a flat mapping), the performance report (a nested mapping with the
  sections \<^verbatim>\<open>overall\<close>, \<^verbatim>\<open>behavioral\<close> and \<^verbatim>\<open>slices\<close>). A dictionary is an
  association list in insertion order; a lookup reads the first binding of a key.
  The scalar leaves (numbers, strings, booleans) are a type parameter.
\<close>

datatype 'v nested = Leaf 'v | Mapping "(string \<times> 'v nested) list"

type_synonym 'v dict = "(string \<times> 'v nested) list"

text \<open>\<^verbatim>\<open>Path(directory, name)\<close>: a directory and a file name inside it.\<close>

type_synonym path = "string \<times> string"

text \<open>
  Exceptions are values. \<open>TypeError\<close>, \<open>KeyError\<close>, \<open>IndexError\<close> and \<open>OSError\<close> are
  the Python exceptions the statements of \<^verbatim>\<open>main.py\<close> raise themselves; the other
  four are the error classes the specification gives to the collaborators that are
  not part of \<^verbatim>\<open>main.py\<close> (the run store, the codec, the search engine).
\<close>

datatype error =
    TypeError string
  | KeyError string
  | IndexError
  | OSError path
  | RunNotFoundError string
  | ArtifactCorruptionError string
  | ParseError string
  | SearchExhaustedError

text \<open>\<^verbatim>\<open>d[key]\<close> on a value: a mapping is looked up, a scalar is not subscriptable.\<close>

definition getitem :: "'v nested \<Rightarrow> string \<Rightarrow> error + 'v nested" where
  "getitem d k =
     (case d of
        Leaf _ \<Rightarrow> Inl (TypeError k)
      | Mapping kvs \<Rightarrow> (case map_of kvs k of None \<Rightarrow> Inl (KeyError k) | Some v \<Rightarrow> Inr v))"

text \<open>\<^verbatim>\<open>{**a, **b}\<close>: the bindings of \<open>b\<close> are written over \<open>a\<close>, in the order of \<open>b\<close>.\<close>

definition dict_merge :: "'v dict \<Rightarrow> 'v dict \<Rightarrow> 'v dict" where
  "dict_merge a b = fold (\<lambda>(k, v). AList.update k v) b a"

text \<open>
  \<^verbatim>\<open>s.split(sep)[-1]\<close>: the text after the last occurrence of \<open>sep\<close> that a scan
  from the left finds, the whole of \<open>s\<close> when there is none. \<open>cur\<close> is the piece
  the scan is in, the third argument what is left to scan.
\<close>

function last_piece :: "string \<Rightarrow> string \<Rightarrow> string \<Rightarrow> string" where
  "last_piece sep cur [] = cur"
| "last_piece sep cur (c # cs) =
     (if sep \<noteq> [] \<and> take (length sep) (c # cs) = sep
      then last_piece sep (drop (length sep) (c # cs)) (drop (length sep) (c # cs))
      else last_piece sep cur cs)"
  by pat_completeness auto
termination
  by (relation "measure (\<lambda>(sep, cur, s). length s)") auto

definition split_last :: "string \<Rightarrow> string \<Rightarrow> string" where
  "split_last sep s = last_piece sep s s"

section \<open>Calling a function with keyword arguments\<close>

text \<open>
  Several commands call a sibling function with keyword arguments only. Python binds
  them against the callee's signature: a keyword that is no parameter of the callee,
  or a parameter without default that gets no argument, raises \<open>TypeError\<close> before
  the body runs.
\<close>

datatype pyarg = AStr string | ABool bool

definition bind_kwargs ::
  "string list \<Rightarrow> string list \<Rightarrow> (string \<times> pyarg) list \<Rightarrow> error + (string \<rightharpoonup> pyarg)" where
  "bind_kwargs required optional kwargs =
     (case find (\<lambda>(k, _). k \<notin> set (required @ optional)) kwargs of
        Some (k, _) \<Rightarrow> Inl (TypeError k)
      | None \<Rightarrow>
          (case find (\<lambda>r. r \<notin> fst ` set kwargs) required of
             Some r \<Rightarrow> Inl (TypeError r)
           | None \<Rightarrow> Inr (map_of kwargs)))"

section \<open>The structural diff of two mappings\<close>

text \<open>
  The result of a diff: what is only in side B (\<open>added\<close>), what is only in side A
  (\<open>removed\<close>), and what both sides have with different values (\<open>changed\<close>, under
  the labels of the two sides). A key of a nested mapping is the path to it.
\<close>

record 'v diff_result =
  added :: "(string list \<times> 'v nested) list"
  removed :: "(string list \<times> 'v nested) list"
  changed :: "(string list \<times> 'v dict) list"

definition no_diff :: "'v diff_result" where
  "no_diff = \<lparr>added = [], removed = [], changed = []\<rparr>"

definition diff_union :: "'v diff_result \<Rightarrow> 'v diff_result \<Rightarrow> 'v diff_result" where
  "diff_union r s =
     \<lparr>added = added r @ added s, removed = removed r @ removed s,
      changed = changed r @ changed s\<rparr>"

text \<open>
  Modelled from the spec: \<^verbatim>\<open>utils.dict_diff\<close>, which \<^verbatim>\<open>diff\<close> calls and which is not in
  \<^verbatim>\<open>main.py\<close>. The diff is computed over the union of the keys of the two mappings,
  recursively for nested mappings: a key of B that A does not have is added, a key of
  A that B does not have is removed, a key of both is descended into when both values
  are mappings and is changed when the values differ otherwise (exact equality, no
  tolerance). \<open>diff_value\<close> compares two values at the path \<open>p\<close>, \<open>diff_entries\<close> runs
  through the entries of A.
\<close>

fun diff_value ::
  "string \<Rightarrow> string \<Rightarrow> string list \<Rightarrow> 'v nested \<Rightarrow> 'v nested \<Rightarrow> 'v diff_result"
and diff_entries ::
  "string \<Rightarrow> string \<Rightarrow> string list \<Rightarrow> 'v dict \<Rightarrow> 'v dict \<Rightarrow> 'v diff_result"
where
  "diff_value la lb p (Mapping a) (Mapping b) =
     diff_union
       \<lparr>added = [(p @ [k], v). (k, v) \<leftarrow> b, map_of a k = None], removed = [], changed = []\<rparr>
       (diff_entries la lb p a b)"
| "diff_value la lb p va vb =
     (if va = vb then no_diff
      else \<lparr>added = [], removed = [], changed = [(p, AList.update lb vb [(la, va)])]\<rparr>)"
| "diff_entries la lb p [] b = no_diff"
| "diff_entries la lb p ((k, va) # a) b =
     (case map_of b k of
        None \<Rightarrow> diff_union \<lparr>added = [], removed = [(p @ [k], va)], changed = []\<rparr>
                  (diff_entries la lb p a b)
      | Some vb \<Rightarrow> diff_union (diff_value la lb (p @ [k]) va vb) (diff_entries la lb p a b))"

definition dict_diff :: "'v dict \<Rightarrow> 'v dict \<Rightarrow> string \<Rightarrow> string \<Rightarrow> 'v diff_result" where
  "dict_diff d_a d_b d_a_name d_b_name =
     diff_value d_a_name d_b_name [] (Mapping d_a) (Mapping d_b)"

text \<open>A Python dictionary has every key once, on every level.\<close>

fun well_formed :: "'v nested \<Rightarrow> bool" where
  "well_formed (Leaf x) = True"
| "well_formed (Mapping kvs) =
     (distinct (map fst kvs) \<and> (\<forall>v \<in> snd ` set kvs. well_formed v))"

section \<open>The world and the collaborators\<close>

text \<open>
  What the commands read and change: the files on disk, the artifact location the run
  store resolves a run id to, the lines given to \<^verbatim>\<open>logger.info\<close>, and the calls made to
  the tracking client \<^verbatim>\<open>mlflow\<close>.
\<close>

datatype 'v log_entry =
    Info string
  | InfoJson string "'v nested"
  | InfoDiff string "'v diff_result"
  | InfoValue string "real option"

datatype 'v mlflow_event =
    SetExperiment string
  | StartRun string string
  | EndRun string
  | SetTags "'v dict"
  | LogMetric string "'v nested"
  | LogMetrics "'v dict"
  | LogParams "'v dict"
  | LogTrial string nat "real option"

record ('f, 'v) world =
  files :: "path \<rightharpoonup> 'f"
  artifact_location :: "string \<rightharpoonup> string"
  logger :: "'v log_entry list"
  tracking :: "'v mlflow_event list"

text \<open>
  The five components of a bundle as \<^verbatim>\<open>load_artifacts\<close> returns them, and the
  dictionary \<^verbatim>\<open>train.train\<close> returns, which has the key \<^verbatim>\<open>loss\<close> as well.
\<close>

record ('v, 'le, 'tok, 'm) artifacts =
  a_params :: "'v dict"
  a_label_encoder :: 'le
  a_tokenizer :: 'tok
  a_model :: 'm
  a_performance :: "'v dict"

record ('v, 'le, 'tok, 'm) train_artifacts = "('v, 'le, 'tok, 'm) artifacts" +
  a_loss :: "'v nested"

datatype encoder = DefaultEncoder | NumpyEncoder

text \<open>
  The collaborators \<^verbatim>\<open>main.py\<close> imports and calls (\<^verbatim>\<open>utils\<close>, \<^verbatim>\<open>data\<close>, \<^verbatim>\<open>models\<close>,
  \<^verbatim>\<open>train\<close>, \<^verbatim>\<open>eval\<close>, \<^verbatim>\<open>torch\<close>, \<^verbatim>\<open>tempfile\<close>, the tracking client) are parameters:
  \<^item> the formats: JSON text of a dictionary (\<open>json_dump\<close> is \<open>None\<close> where the encoder
    cannot serialise a value, \<open>json_parse\<close> is \<open>None\<close> on malformed text), the saved
    states of the label encoder and of the tokenizer, the weight blob;
  \<^item> \<open>disk_ok\<close>: whether a write to a path succeeds;
  \<^item> the model library: building a model of a given size, loading weights into it;
  \<^item> training, the behavioural test suite, the remote tag list;
  \<^item> the identifier and the artifact location the tracking backend gives a new run,
    and the directory \<^verbatim>\<open>tempfile.TemporaryDirectory()\<close> creates.
\<close>

record ('f, 'v, 'le, 'tok, 'w, 'm) env =
  json_dump :: "encoder \<Rightarrow> 'v dict \<Rightarrow> 'f option"
  json_parse :: "'f \<Rightarrow> 'v dict option"
  label_encoder_dump :: "'le \<Rightarrow> 'f"
  label_encoder_parse :: "'f \<Rightarrow> 'le option"
  label_encoder_len :: "'le \<Rightarrow> nat"
  tokenizer_dump :: "'tok \<Rightarrow> 'f"
  tokenizer_parse :: "'f \<Rightarrow> 'tok option"
  tokenizer_len :: "'tok \<Rightarrow> nat"
  torch_dump :: "'w \<Rightarrow> 'f"
  torch_parse :: "string \<Rightarrow> 'f \<Rightarrow> 'w option"
  disk_ok :: "path \<Rightarrow> bool"
  initialize_model :: "'v dict \<Rightarrow> nat \<Rightarrow> nat \<Rightarrow> error + 'm"
  load_state_dict :: "'m \<Rightarrow> 'w \<Rightarrow> error + 'm"
  state_dict :: "'m \<Rightarrow> 'w"
  train :: "'v dict \<Rightarrow> error + ('v, 'le, 'tok, 'm) train_artifacts"
  get_behavioral_report :: "('v, 'le, 'tok, 'm) artifacts \<Rightarrow> error + 'v nested"
  load_json_from_url :: "string \<Rightarrow> error + (string \<times> string) list list"
  new_run_id :: string
  new_artifact_uri :: string
  temp_dir :: string

definition log_info :: "'v log_entry \<Rightarrow> ('f, 'v) world \<Rightarrow> ('f, 'v) world" where
  "log_info m w = w\<lparr>logger := logger w @ [m]\<rparr>"

definition track :: "'v mlflow_event \<Rightarrow> ('f, 'v) world \<Rightarrow> ('f, 'v) world" where
  "track ev w = w\<lparr>tracking := tracking w @ [ev]\<rparr>"

subsection \<open>Reading and writing files\<close>

text \<open>
  Writing a file (\<^verbatim>\<open>open(fp, "w")\<close> and the dump into it): the write fails with
  \<open>OSError\<close> where the disk refuses it, and leaves the file store as it was.
\<close>

definition write_file ::
  "('f, 'v, 'le, 'tok, 'w, 'm) env \<Rightarrow> path \<Rightarrow> 'f \<Rightarrow> ('f, 'v) world \<Rightarrow> error + ('f, 'v) world" where
  "write_file env fp f w =
     (if disk_ok env fp then Inr (w\<lparr>files := (files w)(fp \<mapsto> f)\<rparr>) else Inl (OSError fp))"

text \<open>\<^verbatim>\<open>utils.save_dict(d, filepath, cls)\<close>: the dictionary as JSON text in the file.\<close>

definition save_dict ::
  "('f, 'v, 'le, 'tok, 'w, 'm) env \<Rightarrow> 'v dict \<Rightarrow> path \<Rightarrow> encoder \<Rightarrow> ('f, 'v) world
     \<Rightarrow> error + ('f, 'v) world" where
  "save_dict env d fp cls w =
     (case json_dump env cls d of
        None \<Rightarrow> Inl (TypeError (snd fp))
      | Some f \<Rightarrow> write_file env fp f w)"

text \<open>
  Modelled from the spec: the codec's reads (\<^verbatim>\<open>utils.load_dict\<close>, the \<^verbatim>\<open>load\<close> methods
  of the label encoder and of the tokenizer, \<^verbatim>\<open>torch.load\<close>), which are not in
  \<^verbatim>\<open>main.py\<close>. A missing component file raises \<open>ArtifactCorruptionError\<close> naming the
  component; so does content the format's parser rejects, except for a JSON
  dictionary, where malformed text raises \<open>ParseError\<close>.
\<close>

definition read_component ::
  "('f \<Rightarrow> 'a option) \<Rightarrow> (string \<Rightarrow> error) \<Rightarrow> path \<Rightarrow> ('f, 'v) world \<Rightarrow> error + 'a" where
  "read_component parse malformed fp w =
     (case files w fp of
        None \<Rightarrow> Inl (ArtifactCorruptionError (snd fp))
      | Some f \<Rightarrow> (case parse f of None \<Rightarrow> Inl (malformed (snd fp)) | Some x \<Rightarrow> Inr x))"

definition load_dict ::
  "('f, 'v, 'le, 'tok, 'w, 'm) env \<Rightarrow> path \<Rightarrow> ('f, 'v) world \<Rightarrow> error + 'v dict" where
  "load_dict env fp w = read_component (json_parse env) ParseError fp w"

definition label_encoder_load ::
  "('f, 'v, 'le, 'tok, 'w, 'm) env \<Rightarrow> path \<Rightarrow> ('f, 'v) world \<Rightarrow> error + 'le" where
  "label_encoder_load env fp w =
     read_component (label_encoder_parse env) ArtifactCorruptionError fp w"

definition tokenizer_load ::
  "('f, 'v, 'le, 'tok, 'w, 'm) env \<Rightarrow> path \<Rightarrow> ('f, 'v) world \<Rightarrow> error + 'tok" where
  "tokenizer_load env fp w =
     read_component (tokenizer_parse env) ArtifactCorruptionError fp w"

definition torch_load ::
  "('f, 'v, 'le, 'tok, 'w, 'm) env \<Rightarrow> path \<Rightarrow> string \<Rightarrow> ('f, 'v) world \<Rightarrow> error + 'w" where
  "torch_load env fp device w =
     read_component (torch_parse env device) ArtifactCorruptionError fp w"

text \<open>
  Modelled from the spec: the run store's resolution of a run id
  (\<^verbatim>\<open>mlflow.get_run(run_id).info.artifact_uri\<close>), which is not in \<^verbatim>\<open>main.py\<close>. It
  gives the run's artifact location and fails with \<open>RunNotFoundError\<close> for an id it
  cannot resolve.
\<close>

definition get_run_artifact_uri :: "string \<Rightarrow> ('f, 'v) world \<Rightarrow> error + string" where
  "get_run_artifact_uri run_id w =
     (case artifact_location w run_id of
        None \<Rightarrow> Inl (RunNotFoundError run_id)
      | Some uri \<Rightarrow> Inr uri)"

section \<open>\<^verbatim>\<open>load_artifacts\<close>\<close>

text \<open>
  Lines 277 to 307. The run id is resolved to the artifact location, the scheme
  \<^verbatim>\<open>file://\<close> is cut off, the five files are read in the order \<^verbatim>\<open>params.json\<close>,
  \<^verbatim>\<open>label_encoder.json\<close>, \<^verbatim>\<open>tokenizer.json\<close>, \<^verbatim>\<open>model.pt\<close>, \<^verbatim>\<open>performance.json\<close>, a model
  is built for the sizes of the tokenizer and the label encoder, and the weights are
  loaded into it. The first exception ends the call.
\<close>

definition load_artifacts ::
  "('f, 'v, 'le, 'tok, 'w, 'm) env \<Rightarrow> string \<Rightarrow> string \<Rightarrow> ('f, 'v) world
     \<Rightarrow> error + ('v, 'le, 'tok, 'm) artifacts" where
  "load_artifacts env run_id device w =
     (case get_run_artifact_uri run_id w of
        Inl e \<Rightarrow> Inl e
      | Inr uri \<Rightarrow>
     (let artifact_uri = split_last ''file://'' uri in
      case load_dict env (artifact_uri, ''params.json'') w of
        Inl e \<Rightarrow> Inl e
      | Inr params \<Rightarrow>
     (case label_encoder_load env (artifact_uri, ''label_encoder.json'') w of
        Inl e \<Rightarrow> Inl e
      | Inr label_encoder \<Rightarrow>
     (case tokenizer_load env (artifact_uri, ''tokenizer.json'') w of
        Inl e \<Rightarrow> Inl e
      | Inr tokenizer \<Rightarrow>
     (case torch_load env (artifact_uri, ''model.pt'') device w of
        Inl e \<Rightarrow> Inl e
      | Inr model_state \<Rightarrow>
     (case load_dict env (artifact_uri, ''performance.json'') w of
        Inl e \<Rightarrow> Inl e
      | Inr performance \<Rightarrow>
     (case initialize_model env params (tokenizer_len env tokenizer)
             (label_encoder_len env label_encoder) of
        Inl e \<Rightarrow> Inl e
      | Inr model \<Rightarrow>
     (case load_state_dict env model model_state of
        Inl e \<Rightarrow> Inl e
      | Inr model' \<Rightarrow>
          Inr \<lparr>a_params = params, a_label_encoder = label_encoder,
               a_tokenizer = tokenizer, a_model = model',
               a_performance = performance\<rparr>))))))))"

text \<open>
  A call \<^verbatim>\<open>load_artifacts(**kwargs)\<close>: the signature is
  \<^verbatim>\<open>load_artifacts(run_id, device=torch.device("cpu"))\<close>.
\<close>

definition load_artifacts_kw ::
  "('f, 'v, 'le, 'tok, 'w, 'm) env \<Rightarrow> (string \<times> pyarg) list \<Rightarrow> ('f, 'v) world
     \<Rightarrow> error + ('v, 'le, 'tok, 'm) artifacts" where
  "load_artifacts_kw env kwargs w =
     (case bind_kwargs [''run_id''] [''device''] kwargs of
        Inl e \<Rightarrow> Inl e
      | Inr args \<Rightarrow>
          (case (args ''run_id'', args ''device'') of
             (Some (AStr run_id), None) \<Rightarrow> load_artifacts env run_id ''cpu'' w
           | (Some (AStr run_id), Some (AStr device)) \<Rightarrow> load_artifacts env run_id device w
           | _ \<Rightarrow> Inl (TypeError ''run_id'')))"

section \<open>\<^verbatim>\<open>behavioral_reevaluation\<close>\<close>

text \<open>
  Lines 232 to 254. The command takes \<^verbatim>\<open>model_dir\<close> and calls
  \<^verbatim>\<open>load_artifacts(model_dir=model_dir)\<close>; then it stores the behavioural report in the
  performance report, logs the score as the metric \<^verbatim>\<open>behavioral_score\<close> and writes
  \<^verbatim>\<open>performance.json\<close> in \<^verbatim>\<open>model_dir\<close>.
\<close>

definition behavioral_reevaluation ::
  "('f, 'v, 'le, 'tok, 'w, 'm) env \<Rightarrow> string \<Rightarrow> ('f, 'v) world
     \<Rightarrow> (error + unit) \<times> ('f, 'v) world" where
  "behavioral_reevaluation env model_dir w =
     (case load_artifacts_kw env [(''model_dir'', AStr model_dir)] w of
        Inl e \<Rightarrow> (Inl e, w)
      | Inr artifacts \<Rightarrow>
     (case get_behavioral_report env artifacts of
        Inl e \<Rightarrow> (Inl e, w)
      | Inr report \<Rightarrow>
     (let performance = AList.update ''behavioral'' report (a_performance artifacts) in
      case getitem report ''score'' of
        Inl e \<Rightarrow> (Inl e, w)
      | Inr score \<Rightarrow>
     (let w1 = track (LogMetric ''behavioral_score'' score) w in
      case save_dict env performance (model_dir, ''performance.json'') DefaultEncoder w1 of
        Inl e \<Rightarrow> (Inl e, w1)
      | Inr w2 \<Rightarrow> (Inr (), w2)))))"

section \<open>\<^verbatim>\<open>params\<close>, \<^verbatim>\<open>performance\<close> and \<^verbatim>\<open>diff\<close>\<close>

text \<open>
  The commands \<^verbatim>\<open>params\<close> and \<^verbatim>\<open>performance\<close> are \<open>params_command\<close> and
  \<open>performance_command\<close> here: the source uses both names for local variables too.

  Lines 184 to 189. \<^verbatim>\<open>load_artifacts\<close> returns the parameters as a \<^verbatim>\<open>Namespace\<close>, and
  \<^verbatim>\<open>json.dumps\<close> has no encoding for that class: after a load that ends well, the
  log statement raises \<open>TypeError\<close>.
\<close>

definition params_command ::
  "('f, 'v, 'le, 'tok, 'w, 'm) env \<Rightarrow> string \<Rightarrow> ('f, 'v) world
     \<Rightarrow> (error + 'v dict) \<times> ('f, 'v) world" where
  "params_command env run_id w =
     (case load_artifacts_kw env [(''run_id'', AStr run_id)] w of
        Inl e \<Rightarrow> (Inl e, w)
      | Inr artifacts \<Rightarrow> (Inl (TypeError ''Namespace''), w))"

text \<open>Lines 192 to 197.\<close>

definition performance_command ::
  "('f, 'v, 'le, 'tok, 'w, 'm) env \<Rightarrow> string \<Rightarrow> ('f, 'v) world
     \<Rightarrow> (error + 'v dict) \<times> ('f, 'v) world" where
  "performance_command env run_id w =
     (case load_artifacts_kw env [(''run_id'', AStr run_id)] w of
        Inl e \<Rightarrow> (Inl e, w)
      | Inr artifacts \<Rightarrow>
          (Inr (a_performance artifacts),
           log_info (InfoJson [] (Mapping (a_performance artifacts))) w))"

text \<open>
  Calls \<^verbatim>\<open>params(**kwargs)\<close> and \<^verbatim>\<open>performance(**kwargs)\<close>: both functions have the one
  parameter \<^verbatim>\<open>run_id\<close>.
\<close>

definition params_kw ::
  "('f, 'v, 'le, 'tok, 'w, 'm) env \<Rightarrow> (string \<times> pyarg) list \<Rightarrow> ('f, 'v) world
     \<Rightarrow> (error + 'v dict) \<times> ('f, 'v) world" where
  "params_kw env kwargs w =
     (case bind_kwargs [''run_id''] [] kwargs of
        Inl e \<Rightarrow> (Inl e, w)
      | Inr args \<Rightarrow>
          (case args ''run_id'' of
             Some (AStr run_id) \<Rightarrow> params_command env run_id w
           | _ \<Rightarrow> (Inl (TypeError ''run_id''), w)))"

definition performance_kw ::
  "('f, 'v, 'le, 'tok, 'w, 'm) env \<Rightarrow> (string \<times> pyarg) list \<Rightarrow> ('f, 'v) world
     \<Rightarrow> (error + 'v dict) \<times> ('f, 'v) world" where
  "performance_kw env kwargs w =
     (case bind_kwargs [''run_id''] [] kwargs of
        Inl e \<Rightarrow> (Inl e, w)
      | Inr args \<Rightarrow>
          (case args ''run_id'' of
             Some (AStr run_id) \<Rightarrow> performance_command env run_id w
           | _ \<Rightarrow> (Inl (TypeError ''run_id''), w)))"

text \<open>Line 210: the address of the tag list of the remote repository.\<close>

definition tags_url :: "string \<Rightarrow> string \<Rightarrow> string" where
  "tags_url author repo = ''https://api.github.com/repos/'' @ author @ ''/'' @ repo @ ''/tags''"

text \<open>
  Lines 209 to 211: an empty \<^verbatim>\<open>tag_b\<close> becomes the \<^verbatim>\<open>name\<close> of the first entry of the
  tag list (\<^verbatim>\<open>[0]\<close> raises \<open>IndexError\<close> on an empty list, \<^verbatim>\<open>["name"]\<close> raises
  \<open>KeyError\<close> on an entry without that key); any other \<^verbatim>\<open>tag_b\<close> is kept.
\<close>

definition resolve_tag_b ::
  "('f, 'v, 'le, 'tok, 'w, 'm) env \<Rightarrow> string \<Rightarrow> string \<Rightarrow> string \<Rightarrow> error + string" where
  "resolve_tag_b env author repo tag_b =
     (if tag_b = []
      then (case load_json_from_url env (tags_url author repo) of
              Inl e \<Rightarrow> Inl e
            | Inr tags \<Rightarrow>
                (case tags of
                   [] \<Rightarrow> Inl IndexError
                 | t # _ \<Rightarrow>
                     (case map_of t ''name'' of
                        None \<Rightarrow> Inl (KeyError ''name'')
                      | Some name \<Rightarrow> Inr name)))
      else Inr tag_b)"

text \<open>
  Lines 212 to 228: the comparison of the two tags. The line that names the two tags
  is logged, then the parameters and the performance of both tags are fetched with
  the keywords \<^verbatim>\<open>author\<close>, \<^verbatim>\<open>repo\<close>, \<^verbatim>\<open>tag\<close> and \<^verbatim>\<open>verbose\<close>, and diffed.
\<close>

definition compare_tags ::
  "('f, 'v, 'le, 'tok, 'w, 'm) env \<Rightarrow> string \<Rightarrow> string \<Rightarrow> string \<Rightarrow> string \<Rightarrow> ('f, 'v) world
     \<Rightarrow> (error + 'v diff_result \<times> 'v diff_result) \<times> ('f, 'v) world" where
  "compare_tags env author repo tag_a tag_b w =
     (let w1 = log_info (Info (''Comparing '' @ tag_a @ '' with '' @ tag_b @ '':'')) w in
      case params_kw env [(''author'', AStr author), (''repo'', AStr repo),
                          (''tag'', AStr tag_a), (''verbose'', ABool False)] w1 of
        (Inl e, w2) \<Rightarrow> (Inl e, w2)
      | (Inr params_a, w2) \<Rightarrow>
     (case params_kw env [(''author'', AStr author), (''repo'', AStr repo),
                          (''tag'', AStr tag_b), (''verbose'', ABool False)] w2 of
        (Inl e, w3) \<Rightarrow> (Inl e, w3)
      | (Inr params_b, w3) \<Rightarrow>
     (let params_diff = dict_diff params_a params_b tag_a tag_b;
          w4 = log_info (InfoDiff ''Parameter differences: '' params_diff) w3 in
      case performance_kw env [(''author'', AStr author), (''repo'', AStr repo),
                               (''tag'', AStr tag_a), (''verbose'', ABool False)] w4 of
        (Inl e, w5) \<Rightarrow> (Inl e, w5)
      | (Inr performance_a, w5) \<Rightarrow>
     (case performance_kw env [(''author'', AStr author), (''repo'', AStr repo),
                               (''tag'', AStr tag_b), (''verbose'', ABool False)] w5 of
        (Inl e, w6) \<Rightarrow> (Inl e, w6)
      | (Inr performance_b, w6) \<Rightarrow>
     (let performance_diff = dict_diff performance_a performance_b tag_a tag_b;
          w7 = log_info (InfoDiff ''Performance differences: '' performance_diff) w6
      in (Inr (params_diff, performance_diff), w7))))))"

text \<open>Lines 200 to 228.\<close>

definition diff ::
  "('f, 'v, 'le, 'tok, 'w, 'm) env \<Rightarrow> string \<Rightarrow> string \<Rightarrow> string \<Rightarrow> string \<Rightarrow> ('f, 'v) world
     \<Rightarrow> (error + 'v diff_result \<times> 'v diff_result) \<times> ('f, 'v) world" where
  "diff env author repo tag_a tag_b w =
     (case resolve_tag_b env author repo tag_b of
        Inl e \<Rightarrow> (Inl e, w)
      | Inr tag_b' \<Rightarrow> compare_tags env author repo tag_a tag_b' w)"

section \<open>\<^verbatim>\<open>train_model\<close>\<close>

text \<open>\<^verbatim>\<open>d[k1][k2]...\<close>: the keys are looked up one after the other.\<close>

fun getpath :: "'v nested \<Rightarrow> string list \<Rightarrow> error + 'v nested" where
  "getpath d [] = Inr d"
| "getpath d (k # ks) = (case getitem d k of Inl e \<Rightarrow> Inl e | Inr v \<Rightarrow> getpath v ks)"

text \<open>
  Lines 136 to 145: the metrics snapshot. The six values are read in the order of the
  dictionary display; the first missing key raises.
\<close>

definition train_metrics :: "('v, 'le, 'tok, 'm) train_artifacts \<Rightarrow> error + 'v dict" where
  "train_metrics artifacts =
     (let performance = Mapping (a_performance artifacts) in
      case getpath performance [''overall'', ''precision''] of
        Inl e \<Rightarrow> Inl e
      | Inr precision \<Rightarrow>
     (case getpath performance [''overall'', ''recall''] of
        Inl e \<Rightarrow> Inl e
      | Inr recall \<Rightarrow>
     (case getpath performance [''overall'', ''f1''] of
        Inl e \<Rightarrow> Inl e
      | Inr f1 \<Rightarrow>
     (case getpath performance [''behavioral'', ''score''] of
        Inl e \<Rightarrow> Inl e
      | Inr behavioral_score \<Rightarrow>
     (case getpath performance [''slices'', ''overall'', ''f1''] of
        Inl e \<Rightarrow> Inl e
      | Inr slices_f1 \<Rightarrow>
          Inr [(''precision'', precision), (''recall'', recall), (''f1'', f1),
               (''best_val_loss'', a_loss artifacts),
               (''behavioral_score'', behavioral_score),
               (''slices_f1'', slices_f1)])))))"

text \<open>
  Lines 150 to 154: the five writes into the directory \<open>dp\<close>, in the order of the
  source. The first write that fails ends the sequence.
\<close>

definition stage_bundle ::
  "('f, 'v, 'le, 'tok, 'w, 'm) env \<Rightarrow> ('v, 'le, 'tok, 'm) train_artifacts \<Rightarrow> string
     \<Rightarrow> ('f, 'v) world \<Rightarrow> (error + unit) \<times> ('f, 'v) world" where
  "stage_bundle env artifacts dp w =
     (case save_dict env (a_params artifacts) (dp, ''params.json'') NumpyEncoder w of
        Inl e \<Rightarrow> (Inl e, w)
      | Inr w1 \<Rightarrow>
     (case save_dict env (a_performance artifacts) (dp, ''performance.json'') DefaultEncoder w1 of
        Inl e \<Rightarrow> (Inl e, w1)
      | Inr w2 \<Rightarrow>
     (case write_file env (dp, ''label_encoder.json'')
             (label_encoder_dump env (a_label_encoder artifacts)) w2 of
        Inl e \<Rightarrow> (Inl e, w2)
      | Inr w3 \<Rightarrow>
     (case write_file env (dp, ''tokenizer.json'')
             (tokenizer_dump env (a_tokenizer artifacts)) w3 of
        Inl e \<Rightarrow> (Inl e, w3)
      | Inr w4 \<Rightarrow>
     (case write_file env (dp, ''model.pt'')
             (torch_dump env (state_dict env (a_model artifacts))) w4 of
        Inl e \<Rightarrow> (Inl e, w4)
      | Inr w5 \<Rightarrow> (Inr (), w5))))))"

text \<open>
  Modelled from the spec: \<^verbatim>\<open>mlflow.log_artifacts(dp)\<close>, which is not in \<^verbatim>\<open>main.py\<close>: the
  commit of the staging directory as the run's artifact location. Every file of \<open>dp\<close>
  is put under the local directory of the run's artifact location, and the run id
  resolves to that location from then on.
\<close>

definition log_artifacts ::
  "('f, 'v, 'le, 'tok, 'w, 'm) env \<Rightarrow> string \<Rightarrow> string \<Rightarrow> ('f, 'v) world \<Rightarrow> ('f, 'v) world" where
  "log_artifacts env run_id dp w =
     (let uri = new_artifact_uri env; dest = split_last ''file://'' uri in
      w\<lparr>files := (\<lambda>(d, n). if d = dest
                              then (case files w (dp, n) of Some f \<Rightarrow> Some f | None \<Rightarrow> files w (d, n))
                              else files w (d, n)),
        artifact_location := (artifact_location w)(run_id \<mapsto> uri)\<rparr>)"

text \<open>
  Leaving \<^verbatim>\<open>with tempfile.TemporaryDirectory() as dp\<close>, by the end of the block or by
  an exception: the directory and everything in it is removed.
\<close>

definition remove_tree :: "string \<Rightarrow> ('f, 'v) world \<Rightarrow> ('f, 'v) world" where
  "remove_tree dp w = w\<lparr>files := (\<lambda>(d, n). if d = dp then None else files w (d, n))\<rparr>"

text \<open>
  Lines 149 to 155, the block \<^verbatim>\<open>Log artifacts\<close>: the bundle is staged in the temporary
  directory, \<^verbatim>\<open>mlflow.log_artifacts(dp)\<close> is the statement after the five writes, and
  the directory is removed on the way out.
\<close>

definition log_bundle ::
  "('f, 'v, 'le, 'tok, 'w, 'm) env \<Rightarrow> ('v, 'le, 'tok, 'm) train_artifacts \<Rightarrow> string
     \<Rightarrow> ('f, 'v) world \<Rightarrow> (error + unit) \<times> ('f, 'v) world" where
  "log_bundle env artifacts run_id w =
     (let dp = temp_dir env in
      case stage_bundle env artifacts dp w of
        (Inl e, w1) \<Rightarrow> (Inl e, remove_tree dp w1)
      | (Inr _, w1) \<Rightarrow> (Inr (), remove_tree dp (log_artifacts env run_id dp w1)))"

text \<open>Lines 128 to 156: what runs inside \<^verbatim>\<open>with mlflow.start_run(...)\<close>.\<close>

definition train_run ::
  "('f, 'v, 'le, 'tok, 'w, 'm) env \<Rightarrow> 'v dict \<Rightarrow> string \<Rightarrow> ('f, 'v) world
     \<Rightarrow> (error + unit) \<times> ('f, 'v) world" where
  "train_run env params run_id w =
     (case train env params of
        Inl e \<Rightarrow> (Inl e, w)
      | Inr artifacts \<Rightarrow>
     (let w1 = track (SetTags []) w in
      case getitem (Mapping (a_performance artifacts)) ''overall'' of
        Inl e \<Rightarrow> (Inl e, w1)
      | Inr overall \<Rightarrow>
     (let w2 = log_info (InfoJson [] overall) w1 in
      case train_metrics artifacts of
        Inl e \<Rightarrow> (Inl e, w2)
      | Inr metrics \<Rightarrow>
     (let w3 = track (LogMetrics metrics) w2 in
      case log_bundle env artifacts run_id w3 of
        (Inl e, w4) \<Rightarrow> (Inl e, w4)
      | (Inr _, w4) \<Rightarrow> (Inr (), track (LogParams (a_params artifacts)) w4)))))"

text \<open>
  Lines 107 to 156. The parameters are read, the experiment is set, a run is started
  (the backend gives it its id), and the run is ended on the way out of the
  \<^verbatim>\<open>with\<close> block.
\<close>

definition train_model ::
  "('f, 'v, 'le, 'tok, 'w, 'm) env \<Rightarrow> path \<Rightarrow> string \<Rightarrow> string \<Rightarrow> ('f, 'v) world
     \<Rightarrow> (error + unit) \<times> ('f, 'v) world" where
  "train_model env params_fp experiment_name run_name w =
     (case load_dict env params_fp w of
        Inl e \<Rightarrow> (Inl e, w)
      | Inr params \<Rightarrow>
     (let w1 = track (SetExperiment experiment_name) w;
          run_id = new_run_id env;
          w2 = track (StartRun run_name run_id) w1;
          w3 = log_info (Info (''Run ID: '' @ run_id)) w2
      in case train_run env params run_id w3 of
           (r, w4) \<Rightarrow> (r, track (EndRun run_id) w4)))"

section \<open>Auxiliary notions for the statements\<close>

text \<open>The five files of a bundle, in the order \<^verbatim>\<open>train_model\<close> writes them.\<close>

definition bundle_files :: "string list" where
  "bundle_files =
     [''params.json'', ''performance.json'', ''label_encoder.json'', ''tokenizer.json'',
      ''model.pt'']"


section \<open>A small instance of the collaborators\<close>

text \<open>
  Concrete collaborators on which the operations can be run: a file is the JSON
  text of a dictionary, a saved state, a weight blob, or garbage; the label encoder
  and the tokenizer are their sizes; a model is its list of weights.
\<close>

datatype demo_file = JsonText "real dict" | StateText nat | Blob "nat list" | Garbage

definition demo_performance :: "real dict" where
  "demo_performance =
     [(''overall'', Mapping [(''precision'', Leaf 0.8), (''recall'', Leaf 0.6), (''f1'', Leaf 0.7)]),
      (''behavioral'', Mapping [(''score'', Leaf 1)]),
      (''slices'', Mapping [(''overall'', Mapping [(''f1'', Leaf 0.5)])])]"

definition demo_artifacts :: "(real, nat, nat, nat list) train_artifacts" where
  "demo_artifacts =
     \<lparr>a_params = [(''lr'', Leaf 0.1)], a_label_encoder = 2, a_tokenizer = 3,
      a_model = [1, 2, 3, 4, 5], a_performance = demo_performance, a_loss = Leaf 0.25\<rparr>"

definition demo_env :: "(demo_file, real, nat, nat, nat list, nat list) env" where
  "demo_env =
     \<lparr>json_dump = (\<lambda>cls d. Some (JsonText d)),
      json_parse = (\<lambda>f. case f of JsonText d \<Rightarrow> Some d | _ \<Rightarrow> None),
      label_encoder_dump = StateText,
      label_encoder_parse = (\<lambda>f. case f of StateText n \<Rightarrow> Some n | _ \<Rightarrow> None),
      label_encoder_len = (\<lambda>n. n),
      tokenizer_dump = StateText,
      tokenizer_parse = (\<lambda>f. case f of StateText n \<Rightarrow> Some n | _ \<Rightarrow> None),
      tokenizer_len = (\<lambda>n. n),
      torch_dump = Blob,
      torch_parse = (\<lambda>device f. case f of Blob ws \<Rightarrow> Some ws | _ \<Rightarrow> None),
      disk_ok = (\<lambda>fp. True),
      initialize_model =
        (\<lambda>params vocab_size num_classes. Inr (replicate (vocab_size + num_classes) 0)),
      load_state_dict =
        (\<lambda>m ws. if length ws = length m then Inr ws else Inl (TypeError ''state_dict'')),
      state_dict = (\<lambda>m. m),
      train = (\<lambda>params. Inr (demo_artifacts\<lparr>a_params := params\<rparr>)),
      get_behavioral_report = (\<lambda>a. Inr (Mapping [(''score'', Leaf 1)])),
      load_json_from_url = (\<lambda>url. Inr [[(''name'', ''v0.2'')], [(''name'', ''v0.1'')]]),
      new_run_id = ''run1'',
      new_artifact_uri = ''file:///mlruns/0/run1/artifacts'',
      temp_dir = ''/tmp/tmp0''\<rparr>"

text \<open>The same collaborators on a disk that refuses the fourth staging write.\<close>

definition demo_env_disk_full :: "(demo_file, real, nat, nat, nat list, nat list) env" where
  "demo_env_disk_full = demo_env\<lparr>disk_ok := (\<lambda>fp. fp \<noteq> (''/tmp/tmp0'', ''tokenizer.json''))\<rparr>"

text \<open>A world with a parameter file and no run.\<close>

definition demo_world :: "(demo_file, real) world" where
  "demo_world =
     \<lparr>files = [(''config'', ''params.json'') \<mapsto> JsonText [(''lr'', Leaf 0.1)]],
      artifact_location = Map.empty, logger = [], tracking = []\<rparr>"





section \<open>Properties\<close>

subsection \<open>Evaluation of the small instance\<close>

lemma split_last_demo:
  "split_last ''file://'' ''file:///mlruns/0/run1/artifacts'' = ''/mlruns/0/run1/artifacts''"
  by (simp add: split_last_def)

lemmas reader_defs =
  load_dict_def label_encoder_load_def tokenizer_load_def torch_load_def read_component_def

lemmas demo_defs =
  demo_env_def demo_env_disk_full_def demo_world_def demo_artifacts_def demo_performance_def

lemmas train_model_defs =
  train_model_def train_run_def log_bundle_def stage_bundle_def save_dict_def write_file_def
  log_artifacts_def remove_tree_def train_metrics_def getitem_def track_def log_info_def

subsection \<open>Frame lemmas of the writes\<close>

lemma track_frame [simp]:
  "files (track ev w) = files w" "artifact_location (track ev w) = artifact_location w"
  by (simp_all add: track_def)

lemma log_info_frame [simp]:
  "files (log_info m w) = files w" "artifact_location (log_info m w) = artifact_location w"
  by (simp_all add: log_info_def)

lemma write_file_cases:
  "write_file env fp f w = Inr w' \<Longrightarrow> disk_ok env fp \<and> w' = w\<lparr>files := (files w)(fp \<mapsto> f)\<rparr>"
  by (auto simp add: write_file_def split: if_splits)

lemma save_dict_cases:
  "save_dict env d fp cls w = Inr w' \<Longrightarrow>
   \<exists>f. json_dump env cls d = Some f \<and> disk_ok env fp \<and> w' = w\<lparr>files := (files w)(fp \<mapsto> f)\<rparr>"
  by (auto simp add: save_dict_def dest: write_file_cases split: option.splits)

text \<open>Staging touches the staging directory only, whatever its outcome.\<close>

lemma stage_bundle_frame:
  assumes "stage_bundle env a dp w = (r, w')"
  shows "artifact_location w' = artifact_location w \<and> logger w' = logger w
         \<and> tracking w' = tracking w
         \<and> (\<forall>d n. d \<noteq> dp \<longrightarrow> files w' (d, n) = files w (d, n))"
  using assms
  by (auto simp add: stage_bundle_def split: sum.splits dest!: save_dict_cases write_file_cases)

text \<open>When staging ends well, all five writes were made and the five files are there.\<close>

lemma stage_bundle_Inr:
  assumes "stage_bundle env a dp w = (Inr u, w')"
  shows "(\<forall>n \<in> set bundle_files. disk_ok env (dp, n)) \<and>
         files w' (dp, ''params.json'') = json_dump env NumpyEncoder (a_params a) \<and>
         files w' (dp, ''performance.json'') = json_dump env DefaultEncoder (a_performance a) \<and>
         files w' (dp, ''label_encoder.json'')
           = Some (label_encoder_dump env (a_label_encoder a)) \<and>
         files w' (dp, ''tokenizer.json'') = Some (tokenizer_dump env (a_tokenizer a)) \<and>
         files w' (dp, ''model.pt'') = Some (torch_dump env (state_dict env (a_model a))) \<and>
         json_dump env NumpyEncoder (a_params a) \<noteq> None \<and>
         json_dump env DefaultEncoder (a_performance a) \<noteq> None"
  using assms
  by (auto simp add: stage_bundle_def bundle_files_def split: sum.splits
      dest!: save_dict_cases write_file_cases)

lemma log_bundle_Inl:
  assumes "log_bundle env a run_id w = (Inl e, w')"
  shows "artifact_location w' = artifact_location w
         \<and> (\<forall>d n. d \<noteq> temp_dir env \<longrightarrow> files w' (d, n) = files w (d, n))"
proof -
  obtain r w1 where s: "stage_bundle env a (temp_dir env) w = (r, w1)"
    by (cases "stage_bundle env a (temp_dir env) w")
  with assms have "w' = remove_tree (temp_dir env) w1"
    by (auto simp add: log_bundle_def Let_def split: sum.splits)
  with stage_bundle_frame[OF s] show ?thesis by (simp add: remove_tree_def)
qed

lemma log_bundle_Inr:
  assumes "log_bundle env a run_id w = (Inr u, w')"
    and "split_last ''file://'' (new_artifact_uri env) \<noteq> temp_dir env"
  shows "(\<forall>n \<in> set bundle_files. disk_ok env (temp_dir env, n))
       \<and> artifact_location w' = (artifact_location w)(run_id \<mapsto> new_artifact_uri env)
       \<and> files w' (split_last ''file://'' (new_artifact_uri env), ''params.json'')
            = json_dump env NumpyEncoder (a_params a)
       \<and> files w' (split_last ''file://'' (new_artifact_uri env), ''performance.json'')
            = json_dump env DefaultEncoder (a_performance a)
       \<and> files w' (split_last ''file://'' (new_artifact_uri env), ''label_encoder.json'')
            = Some (label_encoder_dump env (a_label_encoder a))
       \<and> files w' (split_last ''file://'' (new_artifact_uri env), ''tokenizer.json'')
            = Some (tokenizer_dump env (a_tokenizer a))
       \<and> files w' (split_last ''file://'' (new_artifact_uri env), ''model.pt'')
            = Some (torch_dump env (state_dict env (a_model a)))
       \<and> json_dump env NumpyEncoder (a_params a) \<noteq> None
       \<and> json_dump env DefaultEncoder (a_performance a) \<noteq> None"
proof -
  obtain r w1 where s: "stage_bundle env a (temp_dir env) w = (r, w1)"
    by (cases "stage_bundle env a (temp_dir env) w")
  with assms obtain u' where r: "r = Inr u'"
    and w': "w' = remove_tree (temp_dir env) (log_artifacts env run_id (temp_dir env) w1)"
    by (auto simp add: log_bundle_def Let_def split: sum.splits)
  from s r have s': "stage_bundle env a (temp_dir env) w = (Inr u', w1)" by simp
  show ?thesis
    using stage_bundle_Inr[OF s'] stage_bundle_frame[OF s'] assms(2)
    by (auto simp add: w' remove_tree_def log_artifacts_def Let_def)
qed

lemma train_run_Inl:
  assumes "train_run env params run_id w = (Inl e, w')"
  shows "artifact_location w' = artifact_location w
         \<and> (\<forall>d n. d \<noteq> temp_dir env \<longrightarrow> files w' (d, n) = files w (d, n))"
  using assms
  by (auto simp add: train_run_def Let_def split: sum.splits prod.splits dest!: log_bundle_Inl)

lemma train_run_Inr:
  assumes "train_run env params run_id w = (Inr u, w')"
    and "split_last ''file://'' (new_artifact_uri env) \<noteq> temp_dir env"
  shows "\<exists>a. train env params = Inr a
       \<and> (\<forall>n \<in> set bundle_files. disk_ok env (temp_dir env, n))
       \<and> artifact_location w' = (artifact_location w)(run_id \<mapsto> new_artifact_uri env)
       \<and> files w' (split_last ''file://'' (new_artifact_uri env), ''params.json'')
            = json_dump env NumpyEncoder (a_params a)
       \<and> files w' (split_last ''file://'' (new_artifact_uri env), ''performance.json'')
            = json_dump env DefaultEncoder (a_performance a)
       \<and> files w' (split_last ''file://'' (new_artifact_uri env), ''label_encoder.json'')
            = Some (label_encoder_dump env (a_label_encoder a))
       \<and> files w' (split_last ''file://'' (new_artifact_uri env), ''tokenizer.json'')
            = Some (tokenizer_dump env (a_tokenizer a))
       \<and> files w' (split_last ''file://'' (new_artifact_uri env), ''model.pt'')
            = Some (torch_dump env (state_dict env (a_model a)))
       \<and> json_dump env NumpyEncoder (a_params a) \<noteq> None
       \<and> json_dump env DefaultEncoder (a_performance a) \<noteq> None"
proof -
  from assms(1) obtain a w3 w4 u' where a: "train env params = Inr a"
    and lb: "log_bundle env a run_id w3 = (Inr u', w4)"
    and w3: "files w3 = files w" "artifact_location w3 = artifact_location w"
    and w': "files w' = files w4" "artifact_location w' = artifact_location w4"
    by (auto simp add: train_run_def Let_def split: sum.splits prod.splits)
  from log_bundle_Inr[OF lb assms(2)] a w3 w' show ?thesis by auto
qed

subsection \<open>Atomic publish\<close>

text \<open>
  Claim C3. Whatever the collaborators do, a training invocation that ends with an
  exception (a failed read of the parameters, a failed training, a missing metric, a
  staging write the encoder or the disk refuses) leaves the resolution of every run
  id as it was and changes no file outside the temporary staging directory: for the
  new run no artifact location becomes resolvable and no file of a bundle becomes
  readable. An invocation that ends well has made all five staging writes, the run
  id resolves to the artifact location, and the five files are there with the
  contents that were staged. The commit is the statement after the fifth write, so a
  bundle is published whole or not at all. The hypothesis says that the staging
  directory is not the artifact directory itself.
\<close>

theorem train_model_atomic_publish:
  assumes "train_model env params_fp experiment_name run_name w = (r, w')"
    and "split_last ''file://'' (new_artifact_uri env) \<noteq> temp_dir env"
  shows "(\<forall>e. r = Inl e \<longrightarrow>
            artifact_location w' = artifact_location w
          \<and> (\<forall>d n. d \<noteq> temp_dir env \<longrightarrow> files w' (d, n) = files w (d, n)))
       \<and> (\<forall>u. r = Inr u \<longrightarrow>
            (\<exists>params a. load_dict env params_fp w = Inr params \<and> train env params = Inr a
              \<and> (\<forall>n \<in> set bundle_files. disk_ok env (temp_dir env, n))
              \<and> artifact_location w'
                   = (artifact_location w)(new_run_id env \<mapsto> new_artifact_uri env)
              \<and> files w' (split_last ''file://'' (new_artifact_uri env), ''params.json'')
                   = json_dump env NumpyEncoder (a_params a)
              \<and> files w' (split_last ''file://'' (new_artifact_uri env), ''performance.json'')
                   = json_dump env DefaultEncoder (a_performance a)
              \<and> files w' (split_last ''file://'' (new_artifact_uri env), ''label_encoder.json'')
                   = Some (label_encoder_dump env (a_label_encoder a))
              \<and> files w' (split_last ''file://'' (new_artifact_uri env), ''tokenizer.json'')
                   = Some (tokenizer_dump env (a_tokenizer a))
              \<and> files w' (split_last ''file://'' (new_artifact_uri env), ''model.pt'')
                   = Some (torch_dump env (state_dict env (a_model a)))
              \<and> json_dump env NumpyEncoder (a_params a) \<noteq> None
              \<and> json_dump env DefaultEncoder (a_performance a) \<noteq> None))"
proof (rule conjI; rule allI; rule impI)
  fix e assume "r = Inl e"
  with assms(1) show "artifact_location w' = artifact_location w
          \<and> (\<forall>d n. d \<noteq> temp_dir env \<longrightarrow> files w' (d, n) = files w (d, n))"
    by (auto simp add: train_model_def Let_def split: sum.splits prod.splits
        dest!: train_run_Inl)
next
  fix u assume "r = Inr u"
  with assms(1) obtain params w3 w4 where p: "load_dict env params_fp w = Inr params"
    and tr: "train_run env params (new_run_id env) w3 = (Inr u, w4)"
    and w3: "files w3 = files w" "artifact_location w3 = artifact_location w"
    and w': "files w' = files w4" "artifact_location w' = artifact_location w4"
    by (auto simp add: train_model_def Let_def split: sum.splits prod.splits)
  from train_run_Inr[OF tr assms(2)] p w3 w'
  show "\<exists>params a. load_dict env params_fp w = Inr params \<and> train env params = Inr a
              \<and> (\<forall>n \<in> set bundle_files. disk_ok env (temp_dir env, n))
              \<and> artifact_location w'
                   = (artifact_location w)(new_run_id env \<mapsto> new_artifact_uri env)
              \<and> files w' (split_last ''file://'' (new_artifact_uri env), ''params.json'')
                   = json_dump env NumpyEncoder (a_params a)
              \<and> files w' (split_last ''file://'' (new_artifact_uri env), ''performance.json'')
                   = json_dump env DefaultEncoder (a_performance a)
              \<and> files w' (split_last ''file://'' (new_artifact_uri env), ''label_encoder.json'')
                   = Some (label_encoder_dump env (a_label_encoder a))
              \<and> files w' (split_last ''file://'' (new_artifact_uri env), ''tokenizer.json'')
                   = Some (tokenizer_dump env (a_tokenizer a))
              \<and> files w' (split_last ''file://'' (new_artifact_uri env), ''model.pt'')
                   = Some (torch_dump env (state_dict env (a_model a)))
              \<and> json_dump env NumpyEncoder (a_params a) \<noteq> None
              \<and> json_dump env DefaultEncoder (a_performance a) \<noteq> None"
    by auto
qed

text \<open>
  The theorem at work: on the disk that refuses the write of \<^verbatim>\<open>tokenizer.json\<close> the
  command ends with that \<open>OSError\<close>, the run \<^verbatim>\<open>run1\<close> stays unresolvable and its
  artifact directory holds none of the three files staged before the failure; on the
  disk that accepts every write the run resolves and the weight file is in place.
\<close>

theorem train_model_atomic_publish_witness:
  "fst (train_model demo_env_disk_full (''config'', ''params.json'') ''best'' ''model'' demo_world)
     = Inl (OSError (''/tmp/tmp0'', ''tokenizer.json''))
   \<and> artifact_location
        (snd (train_model demo_env_disk_full (''config'', ''params.json'') ''best'' ''model''
                demo_world)) ''run1'' = None
   \<and> files (snd (train_model demo_env_disk_full (''config'', ''params.json'') ''best'' ''model''
                demo_world)) (''/mlruns/0/run1/artifacts'', ''params.json'') = None
   \<and> files (snd (train_model demo_env_disk_full (''config'', ''params.json'') ''best'' ''model''
                demo_world)) (''/mlruns/0/run1/artifacts'', ''label_encoder.json'') = None
   \<and> fst (train_model demo_env (''config'', ''params.json'') ''best'' ''model'' demo_world)
       = Inr ()
   \<and> artifact_location
        (snd (train_model demo_env (''config'', ''params.json'') ''best'' ''model'' demo_world))
        ''run1'' = Some ''file:///mlruns/0/run1/artifacts''
   \<and> files (snd (train_model demo_env (''config'', ''params.json'') ''best'' ''model'' demo_world))
        (''/mlruns/0/run1/artifacts'', ''model.pt'') = Some (Blob [1, 2, 3, 4, 5])"
proof -
  let ?bad = "train_model demo_env_disk_full (''config'', ''params.json'') ''best'' ''model''
                demo_world"
  let ?good = "train_model demo_env (''config'', ''params.json'') ''best'' ''model'' demo_world"
  have bad: "fst ?bad = Inl (OSError (''/tmp/tmp0'', ''tokenizer.json''))"
    by (simp add: train_model_defs reader_defs demo_defs Let_def)
  have good: "fst ?good = Inr ()"
    by (simp add: train_model_defs reader_defs demo_defs Let_def)
  have bad_run: "?bad = (Inl (OSError (''/tmp/tmp0'', ''tokenizer.json'')), snd ?bad)"
    using bad by (metis prod.collapse)
  have good_run: "?good = (Inr (), snd ?good)"
    using good by (metis prod.collapse)
  have dirs_bad:
    "split_last ''file://'' (new_artifact_uri demo_env_disk_full) \<noteq> temp_dir demo_env_disk_full"
    by (simp add: demo_defs split_last_demo)
  have dirs_good: "split_last ''file://'' (new_artifact_uri demo_env) \<noteq> temp_dir demo_env"
    by (simp add: demo_defs split_last_demo)
  have tr: "train demo_env [(''lr'', Leaf 0.1)] = Inr a \<Longrightarrow> a_model a = [1, 2, 3, 4, 5]" for a
    by (auto simp add: demo_defs)
  show ?thesis
    using train_model_atomic_publish[OF bad_run dirs_bad]
      train_model_atomic_publish[OF good_run dirs_good] bad good tr
    by (auto simp add: demo_defs split_last_demo reader_defs)
qed

subsection \<open>Failures of a load\<close>







subsection \<open>Symmetry of the structural diff\<close>

lemma diff_union_simps [simp]:
  "added (diff_union r s) = added r @ added s"
  "removed (diff_union r s) = removed r @ removed s"
  "changed (diff_union r s) = changed r @ changed s"
  by (simp_all add: diff_union_def)

lemma no_diff_simps [simp]:
  "added no_diff = []" "removed no_diff = []" "changed no_diff = []"
  by (simp_all add: no_diff_def)

lemma diff_union_no_diff [simp]: "diff_union no_diff no_diff = no_diff"
  by (simp add: diff_union_def no_diff_def)

lemma added_diff_entries:
  "set (added (diff_entries la lb p a b)) =
     (\<Union>(k, va) \<in> set a. case map_of b k of None \<Rightarrow> {}
         | Some vb \<Rightarrow> set (added (diff_value la lb (p @ [k]) va vb)))"
  by (induction a) (auto split: option.splits)

lemma removed_diff_entries:
  "set (removed (diff_entries la lb p a b)) =
     (\<Union>(k, va) \<in> set a. case map_of b k of None \<Rightarrow> {(p @ [k], va)}
         | Some vb \<Rightarrow> set (removed (diff_value la lb (p @ [k]) va vb)))"
  by (induction a) (auto split: option.splits)

lemma case_union: "(\<exists>k va. map_of a k = Some va \<and>
           x \<in> (case map_of b k of None \<Rightarrow> G k va | Some vb \<Rightarrow> F k va vb)) \<longleftrightarrow> x \<in> 
     {x. \<exists>k va. map_of a k = Some va \<and> map_of b k = None \<and> x \<in> G k va}
     \<union> {x. \<exists>k va vb. map_of a k = Some va \<and> map_of b k = Some vb \<and> x \<in> F k va vb}"
proof
  assume "\<exists>k va. map_of a k = Some va \<and>
           x \<in> (case map_of b k of None \<Rightarrow> G k va | Some vb \<Rightarrow> F k va vb)"
  then obtain k va where "map_of a k = Some va"
     "x \<in> (case map_of b k of None \<Rightarrow> G k va | Some vb \<Rightarrow> F k va vb)" by blast
  then show "x \<in> 
     {x. \<exists>k va. map_of a k = Some va \<and> map_of b k = None \<and> x \<in> G k va}
     \<union> {x. \<exists>k va vb. map_of a k = Some va \<and> map_of b k = Some vb \<and> x \<in> F k va vb}"
    by (cases "map_of b k") auto
next
  assume "x \<in> 
     {x. \<exists>k va. map_of a k = Some va \<and> map_of b k = None \<and> x \<in> G k va}
     \<union> {x. \<exists>k va vb. map_of a k = Some va \<and> map_of b k = Some vb \<and> x \<in> F k va vb}"
  then show "\<exists>k va. map_of a k = Some va \<and>
           x \<in> (case map_of b k of None \<Rightarrow> G k va | Some vb \<Rightarrow> F k va vb)"
    by force
qed

lemma UN_entries:
  assumes "distinct (map fst a)"
  shows "(\<Union>(k, va) \<in> set a. case map_of b k of None \<Rightarrow> G k va | Some vb \<Rightarrow> F k va vb) =
     {x. \<exists>k va. map_of a k = Some va \<and> map_of b k = None \<and> x \<in> G k va}
     \<union> {x. \<exists>k va vb. map_of a k = Some va \<and> map_of b k = Some vb \<and> x \<in> F k va vb}"
    (is "?L = ?R")
proof (rule set_eqI)
  fix x
  have "x \<in> ?L \<longleftrightarrow> (\<exists>k va. (k, va) \<in> set a \<and>
           x \<in> (case map_of b k of None \<Rightarrow> G k va | Some vb \<Rightarrow> F k va vb))"
    by auto
  also have "\<dots> \<longleftrightarrow> (\<exists>k va. map_of a k = Some va \<and>
           x \<in> (case map_of b k of None \<Rightarrow> G k va | Some vb \<Rightarrow> F k va vb))"
    using assms by (simp add: map_of_eq_Some_iff)
  also have "\<dots> \<longleftrightarrow> x \<in> ?R"
    by (rule case_union)
  finally show "x \<in> ?L \<longleftrightarrow> x \<in> ?R" .
qed

lemma diff_value_swap_sets:
  "well_formed va \<Longrightarrow> well_formed vb \<Longrightarrow>
   set (added (diff_value la lb p va vb)) = set (removed (diff_value lb' la' p vb va))"
proof (induction va arbitrary: vb p)
  case (Leaf x)
  then show ?case by (cases vb) auto
next
  case (Mapping a)
  show ?case
  proof (cases vb)
    case (Leaf y)
    then show ?thesis by auto
  next
    case vb: (Mapping b)
    from Mapping.prems vb have da: "distinct (map fst a)" and db: "distinct (map fst b)"
      by auto
    have ih: "set (added (diff_value la lb q v v')) = set (removed (diff_value lb' la' q v' v))"
      if "map_of a k = Some v" "map_of b k' = Some v'" for k v k' v' q
    proof -
      from that have "(k, v) \<in> set a" "(k', v') \<in> set b" by (auto dest: map_of_SomeD)
      then have "v \<in> snd ` set a" "v' \<in> snd ` set b" by force+
      with Mapping.prems vb have "well_formed v" "well_formed v'" by auto
      with Mapping.IH[of "(k, v)" v v' q] \<open>(k, v) \<in> set a\<close> show ?thesis by auto
    qed
    have B_only: "set [(p @ [k], v). (k, v) \<leftarrow> b, map_of a k = None]
        = {x. \<exists>k v. map_of b k = Some v \<and> map_of a k = None \<and> x = (p @ [k], v)}"
      using db by (auto simp add: map_of_eq_Some_iff)
    show ?thesis
      unfolding vb
      apply (simp add: added_diff_entries removed_diff_entries UN_entries[OF da] UN_entries[OF db] B_only del: set_concat)
      apply (rule set_eqI)
      apply (auto simp add: ih)
      done
  qed
qed

lemma diff_value_paths:
  "(q, v) \<in> set (added (diff_value la lb p va vb)) \<or>
   (q, v) \<in> set (removed (diff_value la lb p va vb)) \<Longrightarrow> \<exists>k s. q = p @ k # s"
proof (induction va arbitrary: vb p q v)
  case (Leaf x)
  then show ?case by (cases vb) (auto split: if_splits)
next
  case (Mapping a)
  show ?case
  proof (cases vb)
    case (Leaf y)
    with Mapping.prems show ?thesis by (auto split: if_splits)
  next
    case vb: (Mapping b)
    from Mapping.prems consider
        (only) k where "q = p @ [k]"
      | (nested) k va' vb' where "(k, va') \<in> set a"
          "(q, v) \<in> set (added (diff_value la lb (p @ [k]) va' vb')) \<or>
           (q, v) \<in> set (removed (diff_value la lb (p @ [k]) va' vb'))"
      unfolding vb
      by (auto simp add: added_diff_entries removed_diff_entries split: option.splits; blast)
    then show ?thesis
    proof cases
      case only
      then show ?thesis by simp
    next
      case nested
      have "va' \<in> Basic_BNFs.snds (k, va')" by simp
      from Mapping.IH[OF nested(1) this nested(2)]
      obtain k' s where "q = (p @ [k]) @ k' # s" by auto
      then show ?thesis by simp
    qed
  qed
qed

lemma diff_entries_paths:
  assumes "(q, v) \<in> set (added (diff_entries la lb p a b)) \<or>
           (q, v) \<in> set (removed (diff_entries la lb p a b))"
  shows "\<exists>k s. k \<in> fst ` set a \<and> q = p @ k # s"
proof -
  from assms consider
      (only) k va where "(k, va) \<in> set a" "q = p @ [k]"
    | (nested) k va' vb' where "(k, va') \<in> set a"
        "(q, v) \<in> set (added (diff_value la lb (p @ [k]) va' vb')) \<or>
         (q, v) \<in> set (removed (diff_value la lb (p @ [k]) va' vb'))"
    by (auto simp add: added_diff_entries removed_diff_entries split: option.splits; blast)
  then show ?thesis
  proof cases
    case only
    then show ?thesis by force
  next
    case nested
    from diff_value_paths[OF nested(2)] obtain k' s where "q = (p @ [k]) @ k' # s" by auto
    with nested(1) show ?thesis by force
  qed
qed

lemma only_in_distinct:
  "distinct (map fst b) \<Longrightarrow>
   distinct (map fst (concat (map (\<lambda>(k, v). if P k then [(p @ [k], v)] else []) b)))"
proof (induction b)
  case Nil
  then show ?case by simp
next
  case (Cons kv b)
  obtain k v where kv: "kv = (k, v)" by (cases kv)
  have "p @ [k] \<notin> fst ` set (concat (map (\<lambda>(k, v). if P k then [(p @ [k], v)] else []) b))"
    using Cons.prems kv by (force split: if_splits)
  with Cons kv show ?case by auto
qed

lemma diff_entries_distinct:
  assumes "distinct (map fst a)"
    and "\<And>k va vb q. (k, va) \<in> set a \<Longrightarrow> map_of b k = Some vb \<Longrightarrow>
           distinct (map fst (added (diff_value la lb q va vb))) \<and>
           distinct (map fst (removed (diff_value la lb q va vb)))"
  shows "distinct (map fst (added (diff_entries la lb p a b))) \<and>
         distinct (map fst (removed (diff_entries la lb p a b)))"
  using assms
proof (induction a)
  case Nil
  then show ?case by simp
next
  case (Cons kv a)
  obtain k va where kv: "kv = (k, va)" by (cases kv)
  from Cons.prems(1) kv have k: "k \<notin> fst ` set a" and da: "distinct (map fst a)" by auto
  have rest: "distinct (map fst (added (diff_entries la lb p a b))) \<and>
         distinct (map fst (removed (diff_entries la lb p a b)))"
    using Cons.IH[OF da] Cons.prems(2) by auto
  have fresh: "q \<noteq> p @ k # s" 
    if "(q, v) \<in> set (added (diff_entries la lb p a b)) \<or>
        (q, v) \<in> set (removed (diff_entries la lb p a b))" for q v s
    using diff_entries_paths[OF that] k by auto
  show ?case
  proof (cases "map_of b k")
    case None
    have "p @ [k] \<notin> fst ` set (removed (diff_entries la lb p a b))"
      using fresh[of "p @ [k]" _ "[]"] by force
    with rest None kv show ?thesis by simp
  next
    case (Some vb)
    have here: "distinct (map fst (added (diff_value la lb (p @ [k]) va vb))) \<and>
           distinct (map fst (removed (diff_value la lb (p @ [k]) va vb)))"
      using Cons.prems(2)[of k va vb] kv Some by simp
    have "fst ` set (added (diff_value la lb (p @ [k]) va vb))
            \<inter> fst ` set (added (diff_entries la lb p a b)) = {}"
    proof (rule ccontr)
      assume "\<not> ?thesis"
      then obtain q v v' where 1: "(q, v) \<in> set (added (diff_value la lb (p @ [k]) va vb))"
        and 2: "(q, v') \<in> set (added (diff_entries la lb p a b))" by force
      from diff_value_paths[of q v la lb "p @ [k]" va vb] 1 obtain k' s where "q = p @ k # k' # s"
        by auto
      with fresh[of q v' "k' # s"] 2 show False by simp
    qed
    moreover have "fst ` set (removed (diff_value la lb (p @ [k]) va vb))
            \<inter> fst ` set (removed (diff_entries la lb p a b)) = {}"
    proof (rule ccontr)
      assume "\<not> ?thesis"
      then obtain q v v' where 1: "(q, v) \<in> set (removed (diff_value la lb (p @ [k]) va vb))"
        and 2: "(q, v') \<in> set (removed (diff_entries la lb p a b))" by force
      from diff_value_paths[of q v la lb "p @ [k]" va vb] 1 obtain k' s where "q = p @ k # k' # s"
        by auto
      with fresh[of q v' "k' # s"] 2 show False by simp
    qed
    ultimately show ?thesis using rest here Some kv by simp
  qed
qed

lemma diff_value_distinct:
  "well_formed va \<Longrightarrow> well_formed vb \<Longrightarrow>
   distinct (map fst (added (diff_value la lb p va vb))) \<and>
   distinct (map fst (removed (diff_value la lb p va vb)))"
proof (induction va arbitrary: vb p)
  case (Leaf x)
  then show ?case by (cases vb) auto
next
  case (Mapping a)
  show ?case
  proof (cases vb)
    case (Leaf y)
    then show ?thesis by auto
  next
    case vb: (Mapping b)
    from Mapping.prems vb have da: "distinct (map fst a)" and db: "distinct (map fst b)"
      by auto
    have ih: "distinct (map fst (added (diff_value la lb q v v'))) \<and>
              distinct (map fst (removed (diff_value la lb q v v')))"
      if "(k, v) \<in> set a" "map_of b k = Some v'" for k v v' q
    proof -
      from that have "(k, v') \<in> set b" by (auto dest: map_of_SomeD)
      with that have "v \<in> snd ` set a" "v' \<in> snd ` set b" by force+
      with Mapping.prems vb have "well_formed v" "well_formed v'" by auto
      moreover have "v \<in> Basic_BNFs.snds (k, v)" by simp
      ultimately show ?thesis using Mapping.IH[OF that(1)] by blast
    qed
    have ent: "distinct (map fst (added (diff_entries la lb p a b))) \<and>
         distinct (map fst (removed (diff_entries la lb p a b)))"
      by (rule diff_entries_distinct[OF da ih])
    have only: "distinct (map fst (concat (map (\<lambda>(k, v). if map_of a k = None then [(p @ [k], v)] else []) b)))"
      using db by (rule only_in_distinct)
    have "fst ` set (concat (map (\<lambda>(k, v). if map_of a k = None then [(p @ [k], v)] else []) b))
            \<inter> fst ` set (added (diff_entries la lb p a b)) = {}"
    proof (rule ccontr)
      assume "\<not> ?thesis"
      then obtain q v v' where
        1: "(q, v) \<in> set (concat (map (\<lambda>(k, v). if map_of a k = None then [(p @ [k], v)] else []) b))"
        and 2: "(q, v') \<in> set (added (diff_entries la lb p a b))" by force
      from 1 obtain k where k: "q = p @ [k]" "map_of a k = None" by (auto split: if_splits)
      from diff_entries_paths[of q v' la lb p a b] 2 obtain k' s
        where "k' \<in> fst ` set a" "q = p @ k' # s" by auto
      with k show False by (auto simp add: map_of_eq_None_iff)
    qed
    with ent only show ?thesis unfolding vb by simp
  qed
qed

lemma diff_entries_same:
  assumes "\<And>k v. (k, v) \<in> set a' \<Longrightarrow> map_of a k = Some v"
    and "\<And>k v q. (k, v) \<in> set a' \<Longrightarrow> diff_value la lb q v v = no_diff"
  shows "diff_entries la lb p a' a = no_diff"
  using assms
proof (induction a')
  case Nil
  then show ?case by simp
next
  case (Cons kv a')
  obtain k v where kv: "kv = (k, v)" by (cases kv)
  have 1: "map_of a k = Some v" using Cons.prems(1)[of k v] by (simp add: kv)
  have 2: "diff_value la lb (p @ [k]) v v = no_diff"
    using Cons.prems(2)[of k v "p @ [k]"] by (simp add: kv)
  have 3: "diff_entries la lb p a' a = no_diff"
  proof (rule Cons.IH)
    show "map_of a k' = Some v'" if "(k', v') \<in> set a'" for k' v'
      using Cons.prems(1)[of k' v'] that by simp
    show "diff_value la lb q v' v' = no_diff" if "(k', v') \<in> set a'" for k' v' q
      using Cons.prems(2)[of k' v' q] that by simp
  qed
  show ?case by (simp add: kv 1 2 3)
qed

lemma diff_value_same:
  "well_formed va \<Longrightarrow> diff_value la lb p va va = no_diff"
proof (induction va arbitrary: p)
  case (Leaf x)
  then show ?case by simp
next
  case (Mapping a)
  then have da: "distinct (map fst a)" by simp
  have 1: "map_of a k = Some v" if "(k, v) \<in> set a" for k v
    using da that by simp
  have 2: "diff_value la lb q v v = no_diff" if "(k, v) \<in> set a" for k v q
  proof -
    from that have "v \<in> snd ` set a" by force
    with Mapping.prems have "well_formed v" by auto
    moreover have "v \<in> Basic_BNFs.snds (k, v)" by simp
    ultimately show ?thesis using Mapping.IH[OF that] by blast
  qed
  have 3: "concat (map (\<lambda>(k, v). if map_of a k = None then [(p @ [k], v)] else []) a) = []"
    using 1 by (auto split: if_splits)
  show ?case
    by (simp add: 3 diff_entries_same[of a a, OF 1 2] diff_union_def no_diff_def)
qed

text \<open>
  Claim C5. For two mappings that are dictionaries on every level (each key once),
  what the diff of A and B reports as added is what the diff of B and A reports as
  removed, and the other way round, as mappings from key paths to values; and the
  diff of a mapping with itself has nothing added, removed or changed. The labels of
  the two sides play no part.
\<close>

theorem dict_diff_symmetry:
  assumes "well_formed (Mapping d_a)" and "well_formed (Mapping d_b)"
  shows "map_of (added (dict_diff d_a d_b name_a name_b))
           = map_of (removed (dict_diff d_b d_a name_b name_a))
       \<and> map_of (removed (dict_diff d_a d_b name_a name_b))
           = map_of (added (dict_diff d_b d_a name_b name_a))
       \<and> dict_diff d_a d_a name_a name_b = \<lparr>added = [], removed = [], changed = []\<rparr>"
proof (intro conjI)
  from diff_value_distinct[OF assms, of name_a name_b "[]"]
    diff_value_distinct[OF assms(2) assms(1), of name_b name_a "[]"]
  have d: "distinct (map fst (added (dict_diff d_a d_b name_a name_b)))"
    "distinct (map fst (removed (dict_diff d_a d_b name_a name_b)))"
    "distinct (map fst (added (dict_diff d_b d_a name_b name_a)))"
    "distinct (map fst (removed (dict_diff d_b d_a name_b name_a)))"
    unfolding dict_diff_def by blast+
  have "set (added (dict_diff d_a d_b name_a name_b))
          = set (removed (dict_diff d_b d_a name_b name_a))"
    unfolding dict_diff_def by (rule diff_value_swap_sets[OF assms])
  with d show "map_of (added (dict_diff d_a d_b name_a name_b))
           = map_of (removed (dict_diff d_b d_a name_b name_a))"
    by (simp only: map_of_inject_set)
  have "set (removed (dict_diff d_a d_b name_a name_b))
          = set (added (dict_diff d_b d_a name_b name_a))"
    unfolding dict_diff_def by (rule diff_value_swap_sets[OF assms(2) assms(1), symmetric])
  with d show "map_of (removed (dict_diff d_a d_b name_a name_b))
           = map_of (added (dict_diff d_b d_a name_b name_a))"
    by (simp only: map_of_inject_set)
  show "dict_diff d_a d_a name_a name_b = \<lparr>added = [], removed = [], changed = []\<rparr>"
    unfolding dict_diff_def using diff_value_same[OF assms(1)] by (simp only: no_diff_def)
qed

text \<open>
  The theorem at work on the parameters \<^verbatim>\<open>{"lr": 0.1}\<close> for A and
  \<^verbatim>\<open>{"lr": 0.2, "batch": 32}\<close> for B: \<^verbatim>\<open>batch\<close> is added from A to B, removed from B
  to A, and \<^verbatim>\<open>lr\<close> is changed.
\<close>

theorem dict_diff_symmetry_witness:
  "map_of (added (dict_diff [(''lr'', Leaf (0.1::real))]
                    [(''lr'', Leaf 0.2), (''batch'', Leaf 32)] ''A'' ''B''))
     = map_of (removed (dict_diff [(''lr'', Leaf 0.2), (''batch'', Leaf 32)]
                    [(''lr'', Leaf (0.1::real))] ''B'' ''A''))
   \<and> added (dict_diff [(''lr'', Leaf (0.1::real))]
                    [(''lr'', Leaf 0.2), (''batch'', Leaf 32)] ''A'' ''B'')
       = [([''batch''], Leaf 32)]
   \<and> changed (dict_diff [(''lr'', Leaf (0.1::real))]
                    [(''lr'', Leaf 0.2), (''batch'', Leaf 32)] ''A'' ''B'')
       = [([''lr''], [(''A'', Leaf 0.1), (''B'', Leaf 0.2)])]
   \<and> dict_diff [(''lr'', Leaf (0.1::real))] [(''lr'', Leaf 0.1)] ''A'' ''B''
       = \<lparr>added = [], removed = [], changed = []\<rparr>"
proof -
  have wa: "well_formed (Mapping [(''lr'', Leaf (0.1::real))])" by simp
  have wb: "well_formed (Mapping [(''lr'', Leaf (0.2::real)), (''batch'', Leaf 32)])" by simp
  show ?thesis
    using dict_diff_symmetry[OF wa wb, of "''A''" "''B''"]
    by (simp add: dict_diff_def diff_union_def no_diff_def)
qed

subsection \<open>The second tag of a diff\<close>

text \<open>
  Claim C10. With a second tag that is not empty, the command is the comparison of
  the first tag with exactly that tag, and the remote tag list is not asked. With an
  empty second tag and a tag list whose first entry has the name \<open>name\<close>, it is the
  comparison of the first tag with \<open>name\<close>. The comparison starts by logging the two
  tags it compares, so the tag is resolved before anything is compared.
\<close>

theorem diff_resolves_tag_b:
  "(tag_b \<noteq> [] \<longrightarrow>
      diff env author repo tag_a tag_b w = compare_tags env author repo tag_a tag_b w)
   \<and> (\<forall>t ts name. load_json_from_url env (tags_url author repo) = Inr (t # ts)
          \<and> map_of t ''name'' = Some name \<longrightarrow>
        diff env author repo tag_a [] w = compare_tags env author repo tag_a name w)
   \<and> (\<forall>tb. take (Suc (length (logger w)))
              (logger (snd (compare_tags env author repo tag_a tb w)))
            = logger w @ [Info (''Comparing '' @ tag_a @ '' with '' @ tb @ '':'')])"
proof (intro conjI allI impI)
  assume "tag_b \<noteq> []"
  then show "diff env author repo tag_a tag_b w = compare_tags env author repo tag_a tag_b w"
    by (simp add: diff_def resolve_tag_b_def)
next
  fix t ts name
  assume "load_json_from_url env (tags_url author repo) = Inr (t # ts)
          \<and> map_of t ''name'' = Some name"
  then show "diff env author repo tag_a [] w = compare_tags env author repo tag_a name w"
    by (simp add: diff_def resolve_tag_b_def)
next
  fix tb
  show "take (Suc (length (logger w))) (logger (snd (compare_tags env author repo tag_a tb w)))
          = logger w @ [Info (''Comparing '' @ tag_a @ '' with '' @ tb @ '':'')]"
    by (simp add: compare_tags_def params_kw_def bind_kwargs_def log_info_def)
qed

text \<open>
  The theorem at work: the remote repository lists \<^verbatim>\<open>v0.2\<close> first, so a diff of
  \<^verbatim>\<open>workspace\<close> with an empty second tag compares \<^verbatim>\<open>workspace\<close> with \<^verbatim>\<open>v0.2\<close>, and a diff
  with the second tag \<^verbatim>\<open>v0.1\<close> compares with \<^verbatim>\<open>v0.1\<close>.
\<close>

theorem diff_resolves_tag_b_witness:
  "logger (snd (diff demo_env ''me'' ''repo'' ''workspace'' [] demo_world))
     = [Info ''Comparing workspace with v0.2:'']
   \<and> logger (snd (diff demo_env ''me'' ''repo'' ''workspace'' ''v0.1'' demo_world))
     = [Info ''Comparing workspace with v0.1:'']"
proof -
  have url: "load_json_from_url demo_env (tags_url ''me'' ''repo'')
               = Inr ([(''name'', ''v0.2'')] # [[(''name'', ''v0.1'')]])"
    by (simp add: demo_env_def)
  have name: "map_of [(''name'', ''v0.2'')] ''name'' = Some ''v0.2''" by simp
  have ne: "''v0.1'' \<noteq> []" by simp
  have logs: "logger (snd (compare_tags demo_env ''me'' ''repo'' ''workspace'' tb demo_world))
                = [Info (''Comparing workspace with '' @ tb @ '':'')]" for tb
    by (simp add: compare_tags_def params_kw_def bind_kwargs_def log_info_def demo_world_def)
  show ?thesis
    using diff_resolves_tag_b[of "''v0.1''" demo_env "''me''" "''repo''" "''workspace''" demo_world]
      diff_resolves_tag_b[of "[]" demo_env "''me''" "''repo''" "''workspace''" demo_world]
      url name ne logs
    by simp
qed

subsection \<open>Behavioural reevaluation\<close>

text \<open>
  Claim C9 says that a behavioural reevaluation loads the bundle by run id, computes
  the score, logs it and overwrites the performance report only. The command as
  written passes the keyword \<^verbatim>\<open>model_dir\<close> to \<^verbatim>\<open>load_artifacts\<close>, which has no such
  parameter: for every collaborator, every directory and every world the call raises
  \<open>TypeError\<close> naming that keyword, and nothing is logged or written.
\<close>

theorem behavioral_reevaluation_raises:
  "behavioral_reevaluation env model_dir w = (Inl (TypeError ''model_dir''), w)"
  by (simp add: behavioral_reevaluation_def load_artifacts_kw_def bind_kwargs_def)

end
